theory Spec2Isabelle
  imports Main "HOL-Library.Sublist"
begin

section \<open>Data model of the engine controller\<close>

text \<open>
  The theory embeds the \<^verbatim>\<open>/update-run\<close> handler of
  \<^verbatim>\<open>packages/server/api/src/app/workers/engine-controller.ts\<close> together with its
  helpers \<^verbatim>\<open>getFlowResponse\<close>, \<^verbatim>\<open>markJobAsCompleted\<close> and
  \<^verbatim>\<open>markParentRunAsFailed\<close>. The handler is a sequence of awaited calls to
  collaborators that live in other modules (the response watcher, the flow-run service,
  the queue consumer, the domain helper, the HTTP client). Each call is recorded as an
  event of a trace, and its outcome (resolved value or rejection) is read from a record
  of collaborator behaviours, over which every theorem is universally quantified.
\<close>

datatype JobStatus = COMPLETED | FAILED

datatype QueueName = ONE_TIME

datatype WebsocketClientEvent = FLOW_RUN_PROGRESS

text \<open>
  Modelled from the spec: the enumeration \<^verbatim>\<open>FlowRunStatus\<close> is declared in
  \<^verbatim>\<open>@activepieces/shared\<close>; the nine members are the ones of the spec's data
  model, which are also exactly the labels of the switch in \<^verbatim>\<open>markJobAsCompleted\<close>.
\<close>

datatype FlowRunStatus =
  QUEUED | RUNNING | SUCCEEDED | FAILED | PAUSED | TIMEOUT
  | INTERNAL_ERROR | QUOTA_EXCEEDED | MEMORY_LIMIT_EXCEEDED

text \<open>The members are string enums; the template literal of the error message prints them.\<close>

fun status_name :: "FlowRunStatus \<Rightarrow> string" where
  "status_name QUEUED = ''QUEUED''"
| "status_name RUNNING = ''RUNNING''"
| "status_name SUCCEEDED = ''SUCCEEDED''"
| "status_name FlowRunStatus.FAILED = ''FAILED''"
| "status_name PAUSED = ''PAUSED''"
| "status_name TIMEOUT = ''TIMEOUT''"
| "status_name INTERNAL_ERROR = ''INTERNAL_ERROR''"
| "status_name QUOTA_EXCEEDED = ''QUOTA_EXCEEDED''"
| "status_name MEMORY_LIMIT_EXCEEDED = ''MEMORY_LIMIT_EXCEEDED''"

text \<open>
  Modelled from the spec: pause metadata is an object whose fields (progress update type,
  handler id, pause type, request id) are strings or absent. It is a finite map from
  field names to values, so that the object spread of the handler is map override.
\<close>

datatype js_value = JUndefined | JNull | JString string

type_synonym PauseMetadata = "string \<rightharpoonup> js_value"

definition PauseType_WEBHOOK :: string where
  "PauseType_WEBHOOK = ''WEBHOOK''"

definition ProgressUpdateType_NONE :: string where
  "ProgressUpdateType_NONE = ''NONE''"

text \<open>The constants of \<^verbatim>\<open>http-status-codes\<close> that the file uses.\<close>

definition INTERNAL_SERVER_ERROR :: nat where
  "INTERNAL_SERVER_ERROR = 500"

definition GATEWAY_TIMEOUT :: nat where
  "GATEWAY_TIMEOUT = 504"

definition NO_CONTENT :: nat where
  "NO_CONTENT = 204"

record EngineHttpResponse =
  status :: nat
  body :: "(string \<times> string) list"
  headers :: "(string \<times> string) list"

text \<open>\<^verbatim>\<open>FlowRunResponse\<close>: the \<^verbatim>\<open>runDetails\<close> of a report; \<^verbatim>\<open>error\<close> has type \<^verbatim>\<open>unknown\<close>.\<close>

record 'e FlowRunResponse =
  status :: FlowRunStatus
  tasks :: int
  duration :: int
  tags :: "string list option"
  pauseMetadata :: "PauseMetadata option"
  error :: 'e

record 'e UpdateRunProgressRequest =
  runId :: string
  workerHandlerId :: "string option"
  runDetails :: "'e FlowRunResponse"
  httpRequestId :: "string option"
  executionStateBuffer :: "string option"
  executionStateContentLength :: "int option"
  failedStepName :: "string option"
  progressUpdateType :: "string option"

record UpdateRunProgressResponse =
  uploadUrl :: "string option"

text \<open>The fields of a persisted run that the handler reads (\<^verbatim>\<open>run_id\<close> is its \<^verbatim>\<open>id\<close>).\<close>

record FlowRun =
  run_id :: string
  status :: FlowRunStatus
  logsFileId :: "string option"
  failParentOnFailure :: bool
  parentRunId :: "string option"
  pauseMetadata :: "PauseMetadata option"

text \<open>\<^verbatim>\<open>request.principal\<close>; \<^verbatim>\<open>platform_id\<close> is \<^verbatim>\<open>principal.platform.id\<close>.\<close>

record EnginePrincipal =
  projectId :: string
  platform_id :: string
  queueToken :: "string option"

section \<open>Effects: traces and failures\<close>

text \<open>
  A thrown \<^verbatim>\<open>Error\<close> of this file, a failed \<^verbatim>\<open>assertNotNullOrUndefined\<close> (with the
  field name it was given), or the rejection of an awaited collaborator call.
\<close>

datatype failure = Error string | AssertionError string | Rejected string

text \<open>
  One event per call that leaves the file. The arguments are, in this order:
  \<^item> \<open>Publish\<close>: httpRequestId, workerHandlerId, payload;
  \<^item> \<open>UpdateRun\<close>: flowRunId, status, tasks, duration, projectId, tags, failedStepName;
  \<^item> \<open>UpdateLogsAndReturnUploadUrl\<close>: flowRunId, logsFileId, projectId,
    executionStateString, executionStateContentLength;
  \<^item> \<open>Emit\<close>: the room (a project id), the event, the run id;
  \<^item> \<open>Pause\<close>: flowRunId, pauseMetadata;
  \<^item> \<open>ConsumerUpdate\<close>: jobId, queueName, status, token, message;
  \<^item> \<open>GetOneOrThrow\<close>: id, projectId;
  \<^item> \<open>GetPublicApiUrl\<close> and \<open>GetPublicUrl\<close>: path, platformId;
  \<^item> \<open>AxiosPost\<close>: url, then the body's status, data.message and data.link.
\<close>

datatype event =
  Publish string string EngineHttpResponse
| UpdateRun string FlowRunStatus int int string "string list" "string option"
| UpdateLogsAndReturnUploadUrl string "string option" string "string option" int
| Emit string WebsocketClientEvent string
| Pause string PauseMetadata
| ConsumerUpdate string QueueName JobStatus "string option" string
| GetOneOrThrow string string
| GetPublicApiUrl string string
| GetPublicUrl string string
| AxiosPost string string string string

type_synonym 'a io = "event list \<times> (failure + 'a)"

definition return_io :: "'a \<Rightarrow> 'a io" where
  "return_io x = ([], Inr x)"

text \<open>A value computed inside the file: no event, and a throw ends the handler.\<close>

definition lift_io :: "failure + 'a \<Rightarrow> 'a io" where
  "lift_io r = ([], r)"

text \<open>An awaited call of a collaborator: the event, then the call's outcome.\<close>

definition call :: "event \<Rightarrow> failure + 'a \<Rightarrow> 'a io" where
  "call ev r = ([ev], r)"

text \<open>Sequencing: a failure skips everything after it, as a rejected await does.\<close>

definition bind_io :: "'a io \<Rightarrow> ('a \<Rightarrow> 'b io) \<Rightarrow> 'b io" where
  "bind_io m f =
     (case snd m of
        Inl e \<Rightarrow> (fst m, Inl e)
      | Inr x \<Rightarrow> (fst m @ fst (f x), snd (f x)))"

text \<open>
  The collaborators, as outcomes of their calls. Every one of them is called at most once
  by a run of the handler, so a function of the call's arguments loses no behaviour.
  \<^verbatim>\<open>JSON.stringify\<close> is the platform's serializer, applied to the report's error.
\<close>

record 'e collaborators =
  publish :: "string \<Rightarrow> string \<Rightarrow> EngineHttpResponse \<Rightarrow> failure + unit"
  updateRun :: "string \<Rightarrow> FlowRunStatus \<Rightarrow> int \<Rightarrow> int \<Rightarrow> string \<Rightarrow> string list
                 \<Rightarrow> string option \<Rightarrow> failure + FlowRun"
  updateLogsAndReturnUploadUrl :: "string \<Rightarrow> string option \<Rightarrow> string \<Rightarrow> string option \<Rightarrow> int
                 \<Rightarrow> failure + string option"
  pause :: "string \<Rightarrow> PauseMetadata \<Rightarrow> failure + unit"
  consumer_update :: "string \<Rightarrow> QueueName \<Rightarrow> JobStatus \<Rightarrow> string option \<Rightarrow> string
                 \<Rightarrow> failure + unit"
  getOneOrThrow :: "string \<Rightarrow> string \<Rightarrow> failure + FlowRun"
  getPublicApiUrl :: "string \<Rightarrow> string \<Rightarrow> failure + string"
  getPublicUrl :: "string \<Rightarrow> string \<Rightarrow> failure + string"
  axios_post :: "string \<Rightarrow> string \<Rightarrow> string \<Rightarrow> string \<Rightarrow> failure + unit"
  JSON_stringify :: "'e \<Rightarrow> string"

section \<open>The helpers of the file\<close>

definition isNil :: "'a option \<Rightarrow> bool" where
  "isNil x = (x = None)"

text \<open>
  Modelled from the spec: \<^verbatim>\<open>assertNotNullOrUndefined\<close> comes from
  \<^verbatim>\<open>@activepieces/shared\<close>; an absent value is a fatal invariant violation, any
  other value passes.
\<close>

fun assertNotNullOrUndefined :: "js_value \<Rightarrow> string \<Rightarrow> failure + string" where
  "assertNotNullOrUndefined JUndefined fieldName = Inl (AssertionError fieldName)"
| "assertNotNullOrUndefined JNull fieldName = Inl (AssertionError fieldName)"
| "assertNotNullOrUndefined (JString s) fieldName = Inr s"

text \<open>Optional chaining \<^verbatim>\<open>m?.k\<close> on pause metadata.\<close>

definition opt_field :: "PauseMetadata option \<Rightarrow> string \<Rightarrow> js_value" where
  "opt_field m k =
     (case m of
        None \<Rightarrow> JUndefined
      | Some obj \<Rightarrow> (case obj k of None \<Rightarrow> JUndefined | Some v \<Rightarrow> v))"

definition getFlowResponse :: "'e FlowRunResponse \<Rightarrow> failure + EngineHttpResponse" where
  "getFlowResponse result =
     (case FlowRunResponse.status result of
        INTERNAL_ERROR \<Rightarrow>
          Inr \<lparr>EngineHttpResponse.status = INTERNAL_SERVER_ERROR,
               body = [(''message'', ''An internal error has occurred'')],
               headers = []\<rparr>
      | FlowRunStatus.FAILED \<Rightarrow>
          Inr \<lparr>EngineHttpResponse.status = INTERNAL_SERVER_ERROR,
               body = [(''message'', ''The flow has failed and there is no response returned'')],
               headers = []\<rparr>
      | MEMORY_LIMIT_EXCEEDED \<Rightarrow>
          Inr \<lparr>EngineHttpResponse.status = INTERNAL_SERVER_ERROR,
               body = [(''message'', ''The flow has failed and there is no response returned'')],
               headers = []\<rparr>
      | TIMEOUT \<Rightarrow>
          Inr \<lparr>EngineHttpResponse.status = GATEWAY_TIMEOUT,
               body = [(''message'', ''The request took too long to reply'')],
               headers = []\<rparr>
      | QUOTA_EXCEEDED \<Rightarrow>
          Inr \<lparr>EngineHttpResponse.status = NO_CONTENT, body = [], headers = []\<rparr>
      | _ \<Rightarrow>
          Inl (Error (''Unexpected flow run status: ''
                       @ status_name (FlowRunResponse.status result))))"

definition markJobAsCompleted ::
  "'e collaborators \<Rightarrow> FlowRunStatus \<Rightarrow> string \<Rightarrow> EnginePrincipal \<Rightarrow> 'e \<Rightarrow> unit io" where
  "markJobAsCompleted env st jobId enginePrincipal err =
     (case st of
        FlowRunStatus.FAILED \<Rightarrow>
          call (ConsumerUpdate jobId ONE_TIME COMPLETED (queueToken enginePrincipal)
                  ''Flow succeeded'')
               (consumer_update env jobId ONE_TIME COMPLETED (queueToken enginePrincipal)
                  ''Flow succeeded'')
      | TIMEOUT \<Rightarrow>
          call (ConsumerUpdate jobId ONE_TIME COMPLETED (queueToken enginePrincipal)
                  ''Flow succeeded'')
               (consumer_update env jobId ONE_TIME COMPLETED (queueToken enginePrincipal)
                  ''Flow succeeded'')
      | PAUSED \<Rightarrow>
          call (ConsumerUpdate jobId ONE_TIME COMPLETED (queueToken enginePrincipal)
                  ''Flow succeeded'')
               (consumer_update env jobId ONE_TIME COMPLETED (queueToken enginePrincipal)
                  ''Flow succeeded'')
      | QUOTA_EXCEEDED \<Rightarrow>
          call (ConsumerUpdate jobId ONE_TIME COMPLETED (queueToken enginePrincipal)
                  ''Flow succeeded'')
               (consumer_update env jobId ONE_TIME COMPLETED (queueToken enginePrincipal)
                  ''Flow succeeded'')
      | MEMORY_LIMIT_EXCEEDED \<Rightarrow>
          call (ConsumerUpdate jobId ONE_TIME COMPLETED (queueToken enginePrincipal)
                  ''Flow succeeded'')
               (consumer_update env jobId ONE_TIME COMPLETED (queueToken enginePrincipal)
                  ''Flow succeeded'')
      | SUCCEEDED \<Rightarrow>
          call (ConsumerUpdate jobId ONE_TIME COMPLETED (queueToken enginePrincipal)
                  ''Flow succeeded'')
               (consumer_update env jobId ONE_TIME COMPLETED (queueToken enginePrincipal)
                  ''Flow succeeded'')
      | QUEUED \<Rightarrow> return_io ()
      | RUNNING \<Rightarrow> return_io ()
      | INTERNAL_ERROR \<Rightarrow>
          call (ConsumerUpdate jobId ONE_TIME JobStatus.FAILED (queueToken enginePrincipal)
                  (''Internal error reported by engine: '' @ JSON_stringify env err))
               (consumer_update env jobId ONE_TIME JobStatus.FAILED (queueToken enginePrincipal)
                  (''Internal error reported by engine: '' @ JSON_stringify env err)))"

definition markParentRunAsFailed ::
  "'e collaborators \<Rightarrow> string \<Rightarrow> string \<Rightarrow> string \<Rightarrow> string \<Rightarrow> unit io" where
  "markParentRunAsFailed env parentRunId' childRunId projectId' platformId =
     bind_io (call (GetOneOrThrow parentRunId' projectId')
                   (getOneOrThrow env parentRunId' projectId'))
     (\<lambda>flowRun.
        let requestId =
              (if opt_field (FlowRun.pauseMetadata flowRun) ''type'' = JString PauseType_WEBHOOK
               then opt_field (FlowRun.pauseMetadata flowRun) ''requestId''
               else JUndefined)
        in
     bind_io (lift_io (assertNotNullOrUndefined requestId ''Parent run has no request id''))
     (\<lambda>requestId'.
     bind_io (call (GetPublicApiUrl (''/v1/flow-runs/'' @ parentRunId' @ ''/requests/'' @ requestId')
                      platformId)
                   (getPublicApiUrl env
                      (''/v1/flow-runs/'' @ parentRunId' @ ''/requests/'' @ requestId') platformId))
     (\<lambda>callbackUrl.
     bind_io (call (GetPublicUrl (''/projects/'' @ projectId' @ ''/runs/'' @ childRunId) platformId)
                   (getPublicUrl env (''/projects/'' @ projectId' @ ''/runs/'' @ childRunId)
                      platformId))
     (\<lambda>childRunUrl.
        call (AxiosPost callbackUrl ''error'' ''Subflow execution failed'' childRunUrl)
             (axios_post env callbackUrl ''error'' ''Subflow execution failed'' childRunUrl)))))"

section \<open>The update-run handler\<close>

text \<open>
  The handler of \<^verbatim>\<open>app.post('/update-run', ...)\<close> runs six blocks one after the
  other; each block is a definition, and \<open>update_run\<close> chains them in the order of the
  source.
\<close>

definition nonSupportedStatuses :: "FlowRunStatus list" where
  "nonSupportedStatuses = [RUNNING, SUCCEEDED, PAUSED]"

text \<open>
  Lines 89 to 96. The arguments of \<^verbatim>\<open>publish\<close> are evaluated before the call, so a
  throw of \<^verbatim>\<open>getFlowResponse\<close> comes before any event.
\<close>

definition publishFlowResponse :: "'e collaborators \<Rightarrow> 'e UpdateRunProgressRequest \<Rightarrow> unit io" where
  "publishFlowResponse env req =
     (case (FlowRunResponse.status (runDetails req) \<notin> set nonSupportedStatuses,
            workerHandlerId req, httpRequestId req) of
        (True, Some w, Some h) \<Rightarrow>
          bind_io (lift_io (getFlowResponse (runDetails req)))
            (\<lambda>resp. call (Publish h w resp) (publish env h w resp))
      | _ \<Rightarrow> return_io ())"

text \<open>Lines 98 to 106.\<close>

definition persistRun ::
  "'e collaborators \<Rightarrow> EnginePrincipal \<Rightarrow> 'e UpdateRunProgressRequest \<Rightarrow> FlowRun io" where
  "persistRun env principal' req =
     (let rd = runDetails req;
          tags' = (case tags rd of None \<Rightarrow> [] | Some ts \<Rightarrow> ts)
      in call (UpdateRun (runId req) (FlowRunResponse.status rd) (tasks rd) (duration rd)
                 (projectId principal') tags' (failedStepName req))
              (updateRun env (runId req) (FlowRunResponse.status rd) (tasks rd) (duration rd)
                 (projectId principal') tags' (failedStepName req)))"

text \<open>Lines 108 to 121: the value is \<^verbatim>\<open>uploadUrl\<close>. The emit is not awaited.\<close>

definition updateLogsOrNotify ::
  "'e collaborators \<Rightarrow> EnginePrincipal \<Rightarrow> 'e UpdateRunProgressRequest \<Rightarrow> FlowRun
     \<Rightarrow> string option io" where
  "updateLogsOrNotify env principal' req runWithoutSteps =
     (let updateLogs =
            (case executionStateContentLength req of None \<Rightarrow> False | Some len \<Rightarrow> len > 0)
      in if updateLogs
         then (case executionStateContentLength req of
                 Some len \<Rightarrow>
                   call (UpdateLogsAndReturnUploadUrl (runId req) (logsFileId runWithoutSteps)
                           (projectId principal') (executionStateBuffer req) len)
                        (updateLogsAndReturnUploadUrl env (runId req) (logsFileId runWithoutSteps)
                           (projectId principal') (executionStateBuffer req) len)
               | None \<Rightarrow> return_io None)
         else ([Emit (projectId principal') FLOW_RUN_PROGRESS (runId req)], Inr None))"

text \<open>
  Lines 123 to 132, with the default of line 87. The object literal with a spread is the
  map of the two literal fields overridden by the fields of the report's pause metadata.
\<close>

definition pauseRun :: "'e collaborators \<Rightarrow> 'e UpdateRunProgressRequest \<Rightarrow> unit io" where
  "pauseRun env req =
     (let progressUpdateType' =
            (case progressUpdateType req of None \<Rightarrow> ProgressUpdateType_NONE | Some p \<Rightarrow> p);
          merged =
            [''progressUpdateType'' \<mapsto> JString progressUpdateType',
             ''handlerId'' \<mapsto> (case workerHandlerId req of
                                    None \<Rightarrow> JUndefined | Some w \<Rightarrow> JString w)]
            ++ (case FlowRunResponse.pauseMetadata (runDetails req) of
                  None \<Rightarrow> Map.empty | Some pm \<Rightarrow> pm)
      in if FlowRunResponse.status (runDetails req) = PAUSED
         then call (Pause (runId req) merged) (pause env (runId req) merged)
         else return_io ())"

text \<open>Lines 134 to 143.\<close>

definition shouldMarkParentAsFailed :: "FlowRun \<Rightarrow> bool" where
  "shouldMarkParentAsFailed runWithoutSteps \<longleftrightarrow>
     failParentOnFailure runWithoutSteps
     \<and> \<not> isNil (parentRunId runWithoutSteps)
     \<and> FlowRun.status runWithoutSteps \<notin> set [SUCCEEDED, RUNNING, PAUSED, QUEUED]"

definition cascadeToParent :: "'e collaborators \<Rightarrow> EnginePrincipal \<Rightarrow> FlowRun \<Rightarrow> unit io" where
  "cascadeToParent env principal' runWithoutSteps =
     (if shouldMarkParentAsFailed runWithoutSteps
      then (case parentRunId runWithoutSteps of
              Some parent \<Rightarrow>
                markParentRunAsFailed env parent (run_id runWithoutSteps)
                  (projectId principal') (platform_id principal')
            | None \<Rightarrow> return_io ())
      else return_io ())"

definition update_run ::
  "'e collaborators \<Rightarrow> EnginePrincipal \<Rightarrow> 'e UpdateRunProgressRequest
     \<Rightarrow> UpdateRunProgressResponse io" where
  "update_run env principal' req =
     bind_io (publishFlowResponse env req)
     (\<lambda>_.
     bind_io (persistRun env principal' req)
     (\<lambda>runWithoutSteps.
     bind_io (updateLogsOrNotify env principal' req runWithoutSteps)
     (\<lambda>uploadUrl'.
     bind_io (pauseRun env req)
     (\<lambda>_.
     bind_io (markJobAsCompleted env (FlowRun.status runWithoutSteps) (run_id runWithoutSteps)
                principal' (error (runDetails req)))
     (\<lambda>_.
     bind_io (cascadeToParent env principal' runWithoutSteps)
     (\<lambda>_. return_io \<lparr>uploadUrl = uploadUrl'\<rparr>))))))"

section \<open>Observations on traces\<close>

fun isPublish :: "event \<Rightarrow> bool" where
  "isPublish (Publish h w resp) = True"
| "isPublish _ = False"

text \<open>The calls that change the Run Store.\<close>

fun isRunStoreWrite :: "event \<Rightarrow> bool" where
  "isRunStoreWrite (UpdateRun r st t d p tg f) = True"
| "isRunStoreWrite (UpdateLogsAndReturnUploadUrl r l p b n) = True"
| "isRunStoreWrite (Pause r m) = True"
| "isRunStoreWrite _ = False"

fun isPause :: "event \<Rightarrow> bool" where
  "isPause (Pause r m) = True"
| "isPause _ = False"

fun isLogsOrBroadcast :: "event \<Rightarrow> bool" where
  "isLogsOrBroadcast (UpdateLogsAndReturnUploadUrl r l p b n) = True"
| "isLogsOrBroadcast (Emit p ev r) = True"
| "isLogsOrBroadcast _ = False"

text \<open>The acknowledgments sent to the queue.\<close>

fun isAck :: "event \<Rightarrow> bool" where
  "isAck (ConsumerUpdate j q st tok msg) = True"
| "isAck _ = False"

text \<open>The calls that only \<^verbatim>\<open>markParentRunAsFailed\<close> makes.\<close>

fun isCascade :: "event \<Rightarrow> bool" where
  "isCascade (GetOneOrThrow r p) = True"
| "isCascade (GetPublicApiUrl path pl) = True"
| "isCascade (GetPublicUrl path pl) = True"
| "isCascade (AxiosPost url st msg link) = True"
| "isCascade _ = False"

fun isCascadeStart :: "event \<Rightarrow> bool" where
  "isCascadeStart (GetOneOrThrow r p) = True"
| "isCascadeStart _ = False"

fun isAxiosPost :: "event \<Rightarrow> bool" where
  "isAxiosPost (AxiosPost url st msg link) = True"
| "isAxiosPost _ = False"

section \<open>Concrete collaborators and reports\<close>

text \<open>
  \<^verbatim>\<open>JSON.stringify\<close> on a string: the string in double quotes, with the double quote
  and the backslash escaped (control characters are left out of the examples).
\<close>

definition json_quote :: "string \<Rightarrow> string" where
  "json_quote s =
     [CHR 0x22]
     @ concat (map (\<lambda>c. if c = CHR 0x22 \<or> c = CHR 0x5C then [CHR 0x5C, c] else [c]) s)
     @ [CHR 0x22]"

text \<open>A parent run suspended on a webhook, as \<^verbatim>\<open>getOneOrThrow\<close> would load it.\<close>

definition parent_on_webhook :: "string \<Rightarrow> FlowRun" where
  "parent_on_webhook rid =
     \<lparr>run_id = rid, status = PAUSED, logsFileId = None, failParentOnFailure = False,
      parentRunId = None,
      pauseMetadata = Some [''type'' \<mapsto> JString ''WEBHOOK'', ''requestId'' \<mapsto> JString ''q7'']\<rparr>"

text \<open>
  Every collaborator resolves. The Run Store persists the reported status; the flag and
  the parent link of the persisted run are the two parameters.
\<close>

definition env_ok :: "bool \<Rightarrow> string option \<Rightarrow> string collaborators" where
  "env_ok flag parent =
     \<lparr>publish = (\<lambda>h w resp. Inr ()),
      updateRun = (\<lambda>rid st t d p tg f.
         Inr \<lparr>run_id = rid, status = st, logsFileId = Some ''log1'',
              failParentOnFailure = flag, parentRunId = parent, pauseMetadata = None\<rparr>),
      updateLogsAndReturnUploadUrl = (\<lambda>rid l p b n. Inr (Some (''https://files/'' @ rid))),
      pause = (\<lambda>rid m. Inr ()),
      consumer_update = (\<lambda>j q st tok msg. Inr ()),
      getOneOrThrow = (\<lambda>rid p. Inr (parent_on_webhook rid)),
      getPublicApiUrl = (\<lambda>path pl. Inr (''https://api'' @ path)),
      getPublicUrl = (\<lambda>path pl. Inr (''https://app'' @ path)),
      axios_post = (\<lambda>url st msg link. Inr ()),
      JSON_stringify = json_quote\<rparr>"

text \<open>The same, but the outbound notification is rejected.\<close>

definition env_post_rejected :: "string collaborators" where
  "env_post_rejected =
     (env_ok True (Some ''parent1''))
       \<lparr>axios_post := (\<lambda>url st msg link. Inl (Rejected ''ECONNREFUSED''))\<rparr>"

text \<open>The same as \<open>env_ok\<close>, but the parent run is suspended on a delay.\<close>

definition env_parent_delayed :: "string collaborators" where
  "env_parent_delayed =
     (env_ok True (Some ''parent1''))
       \<lparr>getOneOrThrow := (\<lambda>rid p.
          Inr ((parent_on_webhook rid)
                 \<lparr>pauseMetadata :=
                    Some [''type'' \<mapsto> JString ''DELAY'',
                          ''resumeDateTime'' \<mapsto> JString ''2026-01-01T00:00:00Z'']\<rparr>))\<rparr>"

definition principal0 :: EnginePrincipal where
  "principal0 = \<lparr>projectId = ''proj1'', platform_id = ''plat1'', queueToken = Some ''tok1''\<rparr>"

text \<open>A report of run \<^verbatim>\<open>run1\<close> with the given status, handler id, request id,
  pause metadata and content length; its error is the string \<^verbatim>\<open>boom\<close>.\<close>

definition report ::
  "FlowRunStatus \<Rightarrow> string option \<Rightarrow> string option \<Rightarrow> PauseMetadata option \<Rightarrow> int option
     \<Rightarrow> string UpdateRunProgressRequest" where
  "report st w h pm len =
     \<lparr>runId = ''run1'', workerHandlerId = w,
      runDetails = \<lparr>FlowRunResponse.status = st, tasks = 3, duration = 120, tags = None,
                    pauseMetadata = pm, error = ''boom''\<rparr>,
      httpRequestId = h, executionStateBuffer = None, executionStateContentLength = len,
      failedStepName = None, progressUpdateType = None\<rparr>"

section \<open>Traces of the blocks\<close>

text \<open>The definitions that evaluate the handler on a concrete report.\<close>

lemmas run_defs =
  update_run_def bind_io_def publishFlowResponse_def nonSupportedStatuses_def
  getFlowResponse_def persistRun_def updateLogsOrNotify_def pauseRun_def
  markJobAsCompleted_def cascadeToParent_def shouldMarkParentAsFailed_def
  markParentRunAsFailed_def isNil_def return_io_def call_def lift_io_def opt_field_def
  INTERNAL_SERVER_ERROR_def GATEWAY_TIMEOUT_def NO_CONTENT_def PauseType_WEBHOOK_def
  ProgressUpdateType_NONE_def env_ok_def env_post_rejected_def env_parent_delayed_def
  principal0_def report_def
  parent_on_webhook_def json_quote_def


lemma fst_bind_io:
  "fst (bind_io m f) = fst m @ (case snd m of Inl e \<Rightarrow> [] | Inr x \<Rightarrow> fst (f x))"
  by (simp add: bind_io_def split: sum.splits)

lemma snd_bind_io:
  "snd (bind_io m f) = (case snd m of Inl e \<Rightarrow> Inl e | Inr x \<Rightarrow> snd (f x))"
  by (simp add: bind_io_def split: sum.splits)

lemma io_simps [simp]:
  "fst (return_io x) = []" "snd (return_io x) = Inr x"
  "fst (lift_io r) = []" "snd (lift_io r) = r"
  "fst (call ev r) = [ev]" "snd (call ev r) = r"
  by (simp_all add: return_io_def lift_io_def call_def)

lemma trace_markJobAsCompleted:
  "fst (markJobAsCompleted env st j p e) =
     (if st = QUEUED \<or> st = RUNNING then []
      else if st = INTERNAL_ERROR
      then [ConsumerUpdate j ONE_TIME JobStatus.FAILED (queueToken p)
              (''Internal error reported by engine: '' @ JSON_stringify env e)]
      else [ConsumerUpdate j ONE_TIME COMPLETED (queueToken p) ''Flow succeeded''])"
  by (cases st) (simp_all add: markJobAsCompleted_def)

lemma trace_persistRun:
  "fst (persistRun env p req) =
     [UpdateRun (runId req) (FlowRunResponse.status (runDetails req)) (tasks (runDetails req))
        (duration (runDetails req)) (projectId p)
        (case tags (runDetails req) of None \<Rightarrow> [] | Some ts \<Rightarrow> ts) (failedStepName req)]"
  by (simp add: persistRun_def Let_def)

lemma no_publish_markParentRunAsFailed [simp]:
  "filter isPublish (fst (markParentRunAsFailed env a b c d)) = []"
  by (simp add: markParentRunAsFailed_def fst_bind_io snd_bind_io Let_def split: sum.splits)

lemma no_publish_blocks [simp]:
  "filter isPublish (fst (persistRun env p req)) = []"
  "filter isPublish (fst (updateLogsOrNotify env p req run)) = []"
  "filter isPublish (fst (pauseRun env req)) = []"
  "filter isPublish (fst (markJobAsCompleted env st j p e)) = []"
  "filter isPublish (fst (cascadeToParent env p run)) = []"
  by (simp_all add: trace_persistRun updateLogsOrNotify_def pauseRun_def
      trace_markJobAsCompleted cascadeToParent_def Let_def split: option.splits)

lemma publishes_update_run:
  "filter isPublish (fst (update_run env p req)) =
     filter isPublish (fst (publishFlowResponse env req))"
  by (simp add: update_run_def fst_bind_io snd_bind_io split: sum.splits)

lemma update_run_after_publish:
  "\<exists>R. filter isPublish R = []
     \<and> fst (update_run env p req) =
         fst (publishFlowResponse env req)
         @ (case snd (publishFlowResponse env req) of Inl e \<Rightarrow> [] | Inr u \<Rightarrow> R)"
proof -
  let ?rest = "bind_io (persistRun env p req)
     (\<lambda>runWithoutSteps.
     bind_io (updateLogsOrNotify env p req runWithoutSteps)
     (\<lambda>uploadUrl'.
     bind_io (pauseRun env req)
     (\<lambda>_.
     bind_io (markJobAsCompleted env (FlowRun.status runWithoutSteps) (run_id runWithoutSteps)
                p (error (runDetails req)))
     (\<lambda>_.
     bind_io (cascadeToParent env p runWithoutSteps)
     (\<lambda>_. return_io \<lparr>uploadUrl = uploadUrl'\<rparr>)))))"
  have "filter isPublish (fst ?rest) = []"
    by (simp add: fst_bind_io split: sum.splits)
  moreover have "fst (update_run env p req) =
         fst (publishFlowResponse env req)
         @ (case snd (publishFlowResponse env req) of Inl e \<Rightarrow> [] | Inr u \<Rightarrow> fst ?rest)"
    by (simp add: update_run_def fst_bind_io)
  ultimately show ?thesis by blast
qed

lemma publishFlowResponse_owed:
  assumes "FlowRunResponse.status (runDetails req) \<notin> {RUNNING, SUCCEEDED, PAUSED}"
    and "workerHandlerId req = Some w" and "httpRequestId req = Some h"
  shows "publishFlowResponse env req =
     (case getFlowResponse (runDetails req) of
        Inl e \<Rightarrow> ([], Inl e)
      | Inr payload \<Rightarrow> ([Publish h w payload], publish env h w payload))"
  using assms
  by (simp add: publishFlowResponse_def nonSupportedStatuses_def bind_io_def lift_io_def call_def
      split: sum.splits)

lemma no_ack_markParentRunAsFailed [simp]:
  "filter isAck (fst (markParentRunAsFailed env a b c d)) = []"
  by (simp add: markParentRunAsFailed_def fst_bind_io snd_bind_io Let_def split: sum.splits)

lemma no_ack_blocks [simp]:
  "filter isAck (fst (publishFlowResponse env req)) = []"
  "filter isAck (fst (persistRun env p req)) = []"
  "filter isAck (fst (updateLogsOrNotify env p req run)) = []"
  "filter isAck (fst (pauseRun env req)) = []"
  "filter isAck (fst (cascadeToParent env p run)) = []"
  by (simp_all add: publishFlowResponse_def trace_persistRun updateLogsOrNotify_def pauseRun_def
      cascadeToParent_def Let_def fst_bind_io split: option.splits bool.splits sum.splits)

text \<open>The handler once the first four blocks have completed.\<close>

lemma update_run_reaches_ack:
  assumes "snd (publishFlowResponse env req) = Inr ()"
    and "snd (persistRun env p req) = Inr run"
    and "snd (updateLogsOrNotify env p req run) = Inr url"
    and "snd (pauseRun env req) = Inr ()"
  shows "fst (update_run env p req) =
           fst (publishFlowResponse env req) @ fst (persistRun env p req)
           @ fst (updateLogsOrNotify env p req run) @ fst (pauseRun env req)
           @ fst (markJobAsCompleted env (FlowRun.status run) (run_id run) p
                    (error (runDetails req)))
           @ (case snd (markJobAsCompleted env (FlowRun.status run) (run_id run) p
                          (error (runDetails req))) of
                Inl e \<Rightarrow> [] | Inr u \<Rightarrow> fst (cascadeToParent env p run))"
    and "snd (update_run env p req) =
           (case snd (markJobAsCompleted env (FlowRun.status run) (run_id run) p
                        (error (runDetails req))) of
              Inl e \<Rightarrow> Inl e
            | Inr u \<Rightarrow> (case snd (cascadeToParent env p run) of
                         Inl e \<Rightarrow> Inl e | Inr u' \<Rightarrow> Inr \<lparr>uploadUrl = url\<rparr>))"
  using assms
  by (simp_all add: update_run_def fst_bind_io snd_bind_io split: sum.splits)

lemma boom_in_message: "sublist ''boom'' (''Internal error reported by engine: '' @ json_quote ''boom'')"
proof -
  have "''Internal error reported by engine: '' @ json_quote ''boom''
      = (''Internal error reported by engine: '' @ [CHR 0x22]) @ ''boom'' @ [CHR 0x22]"
    by (simp add: json_quote_def)
  then show ?thesis
    unfolding sublist_def by blast
qed

lemma cascade_markParentRunAsFailed [simp]:
  "filter isCascade (fst (markParentRunAsFailed env a b c d)) = fst (markParentRunAsFailed env a b c d)"
  by (simp add: markParentRunAsFailed_def fst_bind_io snd_bind_io Let_def split: sum.splits)

lemma start_markParentRunAsFailed [simp]:
  "filter isCascadeStart (fst (markParentRunAsFailed env a b c d)) = [GetOneOrThrow a c]"
  by (simp add: markParentRunAsFailed_def fst_bind_io snd_bind_io Let_def split: sum.splits)

lemma no_cascade_blocks [simp]:
  "filter isCascade (fst (publishFlowResponse env req)) = []"
  "filter isCascade (fst (persistRun env p req)) = []"
  "filter isCascade (fst (updateLogsOrNotify env p req run)) = []"
  "filter isCascade (fst (pauseRun env req)) = []"
  "filter isCascade (fst (markJobAsCompleted env st j p e)) = []"
  by (simp_all add: publishFlowResponse_def trace_persistRun updateLogsOrNotify_def pauseRun_def
      trace_markJobAsCompleted Let_def fst_bind_io split: option.splits bool.splits sum.splits)

lemma no_start_blocks [simp]:
  "filter isCascadeStart (fst (publishFlowResponse env req)) = []"
  "filter isCascadeStart (fst (persistRun env p req)) = []"
  "filter isCascadeStart (fst (updateLogsOrNotify env p req run)) = []"
  "filter isCascadeStart (fst (pauseRun env req)) = []"
  "filter isCascadeStart (fst (markJobAsCompleted env st j p e)) = []"
  by (simp_all add: publishFlowResponse_def trace_persistRun updateLogsOrNotify_def pauseRun_def
      trace_markJobAsCompleted Let_def fst_bind_io split: option.splits bool.splits sum.splits)

lemma cascadeToParent_cases:
  "cascadeToParent env p run =
     (if failParentOnFailure run \<and> parentRunId run \<noteq> None
         \<and> FlowRun.status run \<notin> {SUCCEEDED, RUNNING, PAUSED, QUEUED}
      then markParentRunAsFailed env (the (parentRunId run)) (run_id run) (projectId p)
             (platform_id p)
      else return_io ())"
  by (auto simp add: cascadeToParent_def shouldMarkParentAsFailed_def isNil_def)

text \<open>The trace of the handler, whatever fails.\<close>

lemma update_run_trace:
  "fst (update_run env p req) =
     fst (publishFlowResponse env req)
     @ (case snd (publishFlowResponse env req) of Inl e \<Rightarrow> [] | Inr u \<Rightarrow>
        fst (persistRun env p req)
        @ (case snd (persistRun env p req) of Inl e \<Rightarrow> [] | Inr run \<Rightarrow>
           fst (updateLogsOrNotify env p req run)
           @ (case snd (updateLogsOrNotify env p req run) of Inl e \<Rightarrow> [] | Inr url \<Rightarrow>
              fst (pauseRun env req)
              @ (case snd (pauseRun env req) of Inl e \<Rightarrow> [] | Inr u \<Rightarrow>
                 fst (markJobAsCompleted env (FlowRun.status run) (run_id run) p
                        (error (runDetails req)))
                 @ (case snd (markJobAsCompleted env (FlowRun.status run) (run_id run) p
                               (error (runDetails req))) of
                      Inl e \<Rightarrow> [] | Inr u \<Rightarrow> fst (cascadeToParent env p run))))))"
  by (simp add: update_run_def fst_bind_io snd_bind_io split: sum.splits)

lemma logs_markParentRunAsFailed [simp]:
  "filter isLogsOrBroadcast (fst (markParentRunAsFailed env a b c d)) = []"
  "filter isPause (fst (markParentRunAsFailed env a b c d)) = []"
  by (simp_all add: markParentRunAsFailed_def fst_bind_io snd_bind_io Let_def split: sum.splits)

lemma no_logs_blocks [simp]:
  "filter isLogsOrBroadcast (fst (publishFlowResponse env req)) = []"
  "filter isLogsOrBroadcast (fst (persistRun env p req)) = []"
  "filter isLogsOrBroadcast (fst (pauseRun env req)) = []"
  "filter isLogsOrBroadcast (fst (markJobAsCompleted env st j p e)) = []"
  "filter isLogsOrBroadcast (fst (cascadeToParent env p run)) = []"
  by (simp_all add: publishFlowResponse_def trace_persistRun pauseRun_def cascadeToParent_cases
      trace_markJobAsCompleted Let_def fst_bind_io split: option.splits bool.splits sum.splits)

lemma no_pause_blocks [simp]:
  "filter isPause (fst (publishFlowResponse env req)) = []"
  "filter isPause (fst (persistRun env p req)) = []"
  "filter isPause (fst (updateLogsOrNotify env p req run)) = []"
  "filter isPause (fst (markJobAsCompleted env st j p e)) = []"
  "filter isPause (fst (cascadeToParent env p run)) = []"
  by (simp_all add: publishFlowResponse_def trace_persistRun updateLogsOrNotify_def
      cascadeToParent_cases trace_markJobAsCompleted Let_def fst_bind_io
      split: option.splits bool.splits sum.splits)

lemma updateLogsOrNotify_cases:
  "updateLogsOrNotify env p req run =
     (case executionStateContentLength req of
        Some len \<Rightarrow>
          if 0 < len
          then ([UpdateLogsAndReturnUploadUrl (runId req) (logsFileId run) (projectId p)
                   (executionStateBuffer req) len],
                updateLogsAndReturnUploadUrl env (runId req) (logsFileId run) (projectId p)
                  (executionStateBuffer req) len)
          else ([Emit (projectId p) FLOW_RUN_PROGRESS (runId req)], Inr None)
      | None \<Rightarrow> ([Emit (projectId p) FLOW_RUN_PROGRESS (runId req)], Inr None))"
  by (simp add: updateLogsOrNotify_def call_def split: option.splits)

text \<open>The value of the handler, whatever fails.\<close>

lemma update_run_value:
  "snd (update_run env p req) =
     (case snd (publishFlowResponse env req) of Inl e \<Rightarrow> Inl e | Inr u \<Rightarrow>
      (case snd (persistRun env p req) of Inl e \<Rightarrow> Inl e | Inr run \<Rightarrow>
       (case snd (updateLogsOrNotify env p req run) of Inl e \<Rightarrow> Inl e | Inr url \<Rightarrow>
        (case snd (pauseRun env req) of Inl e \<Rightarrow> Inl e | Inr u \<Rightarrow>
         (case snd (markJobAsCompleted env (FlowRun.status run) (run_id run) p
                      (error (runDetails req))) of
            Inl e \<Rightarrow> Inl e
          | Inr u \<Rightarrow>
              (case snd (cascadeToParent env p run) of
                 Inl e \<Rightarrow> Inl e | Inr u' \<Rightarrow> Inr \<lparr>uploadUrl = url\<rparr>))))))"
  by (simp add: update_run_def snd_bind_io split: sum.splits)

lemma no_post_blocks [simp]:
  "filter isAxiosPost (fst (publishFlowResponse env req)) = []"
  "filter isAxiosPost (fst (persistRun env p req)) = []"
  "filter isAxiosPost (fst (updateLogsOrNotify env p req run)) = []"
  "filter isAxiosPost (fst (pauseRun env req)) = []"
  "filter isAxiosPost (fst (markJobAsCompleted env st j p e)) = []"
  by (simp_all add: publishFlowResponse_def trace_persistRun updateLogsOrNotify_def pauseRun_def
      trace_markJobAsCompleted Let_def fst_bind_io split: option.splits bool.splits sum.splits)

lemma markParentRunAsFailed_cases:
  "markParentRunAsFailed env a b c d =
     (case getOneOrThrow env a c of
        Inl e \<Rightarrow> ([GetOneOrThrow a c], Inl e)
      | Inr flowRun \<Rightarrow>
          (case assertNotNullOrUndefined
                  (if opt_field (FlowRun.pauseMetadata flowRun) ''type''
                        = JString PauseType_WEBHOOK
                   then opt_field (FlowRun.pauseMetadata flowRun) ''requestId''
                   else JUndefined)
                  ''Parent run has no request id'' of
             Inl e \<Rightarrow> ([GetOneOrThrow a c], Inl e)
           | Inr rid \<Rightarrow>
               (case getPublicApiUrl env (''/v1/flow-runs/'' @ a @ ''/requests/'' @ rid) d of
                  Inl e \<Rightarrow>
                    ([GetOneOrThrow a c,
                      GetPublicApiUrl (''/v1/flow-runs/'' @ a @ ''/requests/'' @ rid) d], Inl e)
                | Inr callbackUrl \<Rightarrow>
                    (case getPublicUrl env (''/projects/'' @ c @ ''/runs/'' @ b) d of
                       Inl e \<Rightarrow>
                         ([GetOneOrThrow a c,
                           GetPublicApiUrl (''/v1/flow-runs/'' @ a @ ''/requests/'' @ rid) d,
                           GetPublicUrl (''/projects/'' @ c @ ''/runs/'' @ b) d], Inl e)
                     | Inr childRunUrl \<Rightarrow>
                         ([GetOneOrThrow a c,
                           GetPublicApiUrl (''/v1/flow-runs/'' @ a @ ''/requests/'' @ rid) d,
                           GetPublicUrl (''/projects/'' @ c @ ''/runs/'' @ b) d,
                           AxiosPost callbackUrl ''error'' ''Subflow execution failed''
                             childRunUrl],
                          axios_post env callbackUrl ''error'' ''Subflow execution failed''
                            childRunUrl)))))"
  by (simp add: markParentRunAsFailed_def bind_io_def call_def lift_io_def Let_def
      split: sum.splits)

lemma markParentRunAsFailed_post:
  assumes "AxiosPost url st msg link \<in> set (fst (markParentRunAsFailed env a b c d))"
  shows "\<exists>pre. fst (markParentRunAsFailed env a b c d) = pre @ [AxiosPost url st msg link]
           \<and> filter isAxiosPost pre = []
           \<and> snd (markParentRunAsFailed env a b c d) = axios_post env url st msg link"
  using assms
  by (auto simp add: markParentRunAsFailed_cases split: sum.splits split del: if_split)

lemma not_post_in_block:
  "filter isAxiosPost t = [] \<Longrightarrow> AxiosPost url st msg link \<notin> set t"
  by (induction t) (auto split: if_splits)

lemma not_start_in_block:
  "filter isCascadeStart t = [] \<Longrightarrow> GetOneOrThrow a c \<notin> set t"
  by (induction t) (auto split: if_splits)

lemma start_in_markParentRunAsFailed:
  assumes "GetOneOrThrow parent project \<in> set (fst (markParentRunAsFailed env a b c d))"
  shows "parent = a \<and> project = c"
proof -
  from assms
  have "GetOneOrThrow parent project
          \<in> set (filter isCascadeStart (fst (markParentRunAsFailed env a b c d)))"
    by (simp del: start_markParentRunAsFailed)
  then have "GetOneOrThrow parent project \<in> set [GetOneOrThrow a c]"
    by (simp only: start_markParentRunAsFailed)
  then show ?thesis
    by simp
qed

section \<open>The synchronous response\<close>

text \<open>
  Claim C1. A report with one of the statuses FAILED, TIMEOUT, INTERNAL_ERROR,
  QUOTA_EXCEEDED, MEMORY_LIMIT_EXCEEDED and with both identifiers makes the handler
  publish exactly once, under the pair (httpRequestId, workerHandlerId); the payload has
  status code 504 for TIMEOUT, 204 for QUOTA_EXCEEDED and 500 for the three others, and
  its body is empty exactly for QUOTA_EXCEEDED. A report whose status is RUNNING,
  SUCCEEDED or PAUSED, or that lacks one of the identifiers, makes it publish nothing.
  Both hold whatever the collaborators do.
\<close>

theorem update_run_publish:
  "(FlowRunResponse.status (runDetails req)
       \<in> {FlowRunStatus.FAILED, TIMEOUT, INTERNAL_ERROR, QUOTA_EXCEEDED, MEMORY_LIMIT_EXCEEDED}
     \<and> workerHandlerId req = Some w \<and> httpRequestId req = Some h
    \<longrightarrow> (\<exists>payload.
           filter isPublish (fst (update_run env p req)) = [Publish h w payload]
           \<and> EngineHttpResponse.status payload =
               (if FlowRunResponse.status (runDetails req) = TIMEOUT then 504
                else if FlowRunResponse.status (runDetails req) = QUOTA_EXCEEDED then 204
                else 500)
           \<and> (body payload = []) = (FlowRunResponse.status (runDetails req) = QUOTA_EXCEEDED)))
   \<and> (FlowRunResponse.status (runDetails req) \<in> {RUNNING, SUCCEEDED, PAUSED}
       \<or> workerHandlerId req = None \<or> httpRequestId req = None
    \<longrightarrow> filter isPublish (fst (update_run env p req)) = [])"
  by (auto simp add: publishes_update_run publishFlowResponse_def nonSupportedStatuses_def
      getFlowResponse_def fst_bind_io INTERNAL_SERVER_ERROR_def GATEWAY_TIMEOUT_def NO_CONTENT_def
      split: option.splits bool.splits)

theorem update_run_publish_witness:
  "(\<exists>payload.
      filter isPublish (fst (update_run (env_ok False None) principal0
                               (report TIMEOUT (Some ''h1'') (Some ''r1'') None None)))
        = [Publish ''r1'' ''h1'' payload]
      \<and> EngineHttpResponse.status payload = 504 \<and> body payload \<noteq> [])
   \<and> filter isPublish (fst (update_run (env_ok False None) principal0
                               (report SUCCEEDED (Some ''h1'') (Some ''r1'') None None))) = []
   \<and> filter isPublish (fst (update_run (env_ok False None) principal0
                               (report INTERNAL_ERROR (Some ''h1'') None None None))) = []"
  using
    update_run_publish [of "report TIMEOUT (Some ''h1'') (Some ''r1'') None None"
                           "''h1''" "''r1''" "env_ok False None" principal0]
    update_run_publish [of "report SUCCEEDED (Some ''h1'') (Some ''r1'') None None"
                           "''h1''" "''r1''" "env_ok False None" principal0]
    update_run_publish [of "report INTERNAL_ERROR (Some ''h1'') None None None"
                           "''h1''" "''r1''" "env_ok False None" principal0]
  by (simp add: report_def)

text \<open>
  Claim C10. A report whose status is in neither of the two sets (that is, QUEUED) and
  that carries both identifiers makes the handler fail at once: \<^verbatim>\<open>getFlowResponse\<close>
  throws while the arguments of the publish are computed. The trace is empty, so nothing
  was published, persisted, acknowledged or cascaded.
\<close>

theorem update_run_fails_fast:
  assumes "FlowRunResponse.status (runDetails req)
             \<notin> {FlowRunStatus.FAILED, TIMEOUT, INTERNAL_ERROR, QUOTA_EXCEEDED,
                 MEMORY_LIMIT_EXCEEDED}"
    and "FlowRunResponse.status (runDetails req) \<notin> {RUNNING, SUCCEEDED, PAUSED}"
    and "workerHandlerId req = Some w" and "httpRequestId req = Some h"
  shows "update_run env p req = ([], Inl (Error ''Unexpected flow run status: QUEUED''))"
  using assms
  by (cases "FlowRunResponse.status (runDetails req)")
     (simp_all add: update_run_def publishFlowResponse_def nonSupportedStatuses_def
        getFlowResponse_def bind_io_def)

theorem update_run_fails_fast_witness:
  "FlowRunResponse.status (runDetails (report QUEUED (Some ''h1'') (Some ''r1'') None None))
     = QUEUED
   \<and> update_run (env_ok True (Some ''parent1'')) principal0
        (report QUEUED (Some ''h1'') (Some ''r1'') None None)
     = ([], Inl (Error ''Unexpected flow run status: QUEUED''))"
  using update_run_fails_fast [of "report QUEUED (Some ''h1'') (Some ''r1'') None None"
                                  "''h1''" "''r1''" "env_ok True (Some ''parent1'')" principal0]
  by (simp add: report_def)

text \<open>
  Claim C4. When a synchronous response is owed (status outside RUNNING, SUCCEEDED,
  PAUSED, both identifiers present), every call that writes to the Run Store comes after
  the publish: wherever the trace is cut at a Run Store write, the part before it starts
  with the publish, that publish has resolved, and no publish follows.
\<close>

theorem publish_before_run_store:
  assumes owed: "FlowRunResponse.status (runDetails req) \<notin> {RUNNING, SUCCEEDED, PAUSED}"
    and w: "workerHandlerId req = Some w" and h: "httpRequestId req = Some h"
    and dec: "fst (update_run env p req) = pre @ ev # post"
    and wr: "isRunStoreWrite ev"
  shows "\<exists>payload pre'. pre = Publish h w payload # pre' \<and> publish env h w payload = Inr ()
           \<and> filter isPublish (pre' @ ev # post) = []"
proof -
  obtain R where R: "filter isPublish R = []"
    and t: "fst (update_run env p req) =
         fst (publishFlowResponse env req)
         @ (case snd (publishFlowResponse env req) of Inl e \<Rightarrow> [] | Inr u \<Rightarrow> R)"
    using update_run_after_publish by blast
  note pub = publishFlowResponse_owed [OF owed w h, of env]
  show ?thesis
  proof (cases "getFlowResponse (runDetails req)")
    case (Inl e)
    with pub t dec show ?thesis by simp
  next
    case (Inr payload)
    show ?thesis
    proof (cases "publish env h w payload")
      case (Inl e)
      with Inr pub t dec have "pre @ ev # post = [Publish h w payload]" by simp
      then have "pre = [] \<and> ev = Publish h w payload"
        by (cases pre) simp_all
      with wr show ?thesis by simp
    next
      case (Inr u)
      with \<open>getFlowResponse (runDetails req) = Inr payload\<close> pub t dec
      have eq: "pre @ ev # post = Publish h w payload # R" by simp
      show ?thesis
      proof (cases pre)
        case Nil
        with eq wr show ?thesis by simp
      next
        case (Cons a pre')
        with eq have "a = Publish h w payload" and "R = pre' @ ev # post" by simp_all
        with R Cons Inr show ?thesis by simp
      qed
    qed
  qed
qed


theorem publish_before_run_store_witness:
  "fst (update_run (env_ok False None) principal0
          (report TIMEOUT (Some ''h1'') (Some ''r1'') None None))
     = [Publish ''r1'' ''h1''
          \<lparr>EngineHttpResponse.status = 504,
           body = [(''message'', ''The request took too long to reply'')], headers = []\<rparr>]
       @ UpdateRun ''run1'' TIMEOUT 3 120 ''proj1'' [] None
       # [Emit ''proj1'' FLOW_RUN_PROGRESS ''run1'',
          ConsumerUpdate ''run1'' ONE_TIME COMPLETED (Some ''tok1'') ''Flow succeeded'']
   \<and> (\<exists>payload pre'.
         [Publish ''r1'' ''h1''
            \<lparr>EngineHttpResponse.status = 504,
             body = [(''message'', ''The request took too long to reply'')], headers = []\<rparr>]
           = Publish ''r1'' ''h1'' payload # pre'
         \<and> publish (env_ok False None) ''r1'' ''h1'' payload = Inr ()
         \<and> filter isPublish
              (pre' @ UpdateRun ''run1'' TIMEOUT 3 120 ''proj1'' [] None
                 # [Emit ''proj1'' FLOW_RUN_PROGRESS ''run1'',
                    ConsumerUpdate ''run1'' ONE_TIME COMPLETED (Some ''tok1'')
                      ''Flow succeeded'']) = [])"
proof -
  let ?req = "report TIMEOUT (Some ''h1'') (Some ''r1'') None None"
  have owed: "FlowRunResponse.status (runDetails ?req) \<notin> {RUNNING, SUCCEEDED, PAUSED}"
    by (simp add: report_def)
  have w: "workerHandlerId ?req = Some ''h1''" and h: "httpRequestId ?req = Some ''r1''"
    by (simp_all add: report_def)
  have dec: "fst (update_run (env_ok False None) principal0 ?req)
     = [Publish ''r1'' ''h1''
          \<lparr>EngineHttpResponse.status = 504,
           body = [(''message'', ''The request took too long to reply'')], headers = []\<rparr>]
       @ UpdateRun ''run1'' TIMEOUT 3 120 ''proj1'' [] None
       # [Emit ''proj1'' FLOW_RUN_PROGRESS ''run1'',
          ConsumerUpdate ''run1'' ONE_TIME COMPLETED (Some ''tok1'') ''Flow succeeded'']"
    by (simp add: run_defs)
  have wr: "isRunStoreWrite (UpdateRun ''run1'' TIMEOUT 3 120 ''proj1'' [] None)"
    by simp
  from publish_before_run_store [OF owed w h dec wr] dec show ?thesis
    by blast
qed

section \<open>The queue acknowledgment\<close>

text \<open>
  Claim C2. Once the run is persisted and the blocks before the acknowledgment have
  completed, the queue receives, for the status of the persisted run: exactly one
  COMPLETED acknowledgment for SUCCEEDED, FAILED, TIMEOUT, PAUSED, QUOTA_EXCEEDED and
  MEMORY_LIMIT_EXCEEDED; exactly one FAILED acknowledgment for INTERNAL_ERROR, whose
  message ends with the serialized error of the report; nothing for QUEUED and RUNNING.
  Every FAILED acknowledgment of the trace has a message that contains the serialized
  error.
\<close>

theorem update_run_acknowledges:
  assumes "snd (publishFlowResponse env req) = Inr ()"
    and "snd (persistRun env p req) = Inr run"
    and "snd (updateLogsOrNotify env p req run) = Inr url"
    and "snd (pauseRun env req) = Inr ()"
  shows "filter isAck (fst (update_run env p req)) =
     (if FlowRun.status run \<in> {SUCCEEDED, FlowRunStatus.FAILED, TIMEOUT, PAUSED, QUOTA_EXCEEDED,
                                 MEMORY_LIMIT_EXCEEDED}
      then [ConsumerUpdate (run_id run) ONE_TIME COMPLETED (queueToken p) ''Flow succeeded'']
      else if FlowRun.status run = INTERNAL_ERROR
      then [ConsumerUpdate (run_id run) ONE_TIME JobStatus.FAILED (queueToken p)
              (''Internal error reported by engine: ''
                 @ JSON_stringify env (error (runDetails req)))]
      else [])
   \<and> (filter isAck (fst (update_run env p req)) = [])
       = (FlowRun.status run \<in> {QUEUED, RUNNING})
   \<and> (\<forall>j q tok msg.
         ConsumerUpdate j q JobStatus.FAILED tok msg \<in> set (fst (update_run env p req))
         \<longrightarrow> sublist (JSON_stringify env (error (runDetails req))) msg)"
proof -
  let ?t = "fst (update_run env p req)"
  have acks: "filter isAck ?t =
     (if FlowRun.status run \<in> {SUCCEEDED, FlowRunStatus.FAILED, TIMEOUT, PAUSED, QUOTA_EXCEEDED,
                                 MEMORY_LIMIT_EXCEEDED}
      then [ConsumerUpdate (run_id run) ONE_TIME COMPLETED (queueToken p) ''Flow succeeded'']
      else if FlowRun.status run = INTERNAL_ERROR
      then [ConsumerUpdate (run_id run) ONE_TIME JobStatus.FAILED (queueToken p)
              (''Internal error reported by engine: ''
                 @ JSON_stringify env (error (runDetails req)))]
      else [])"
    by (cases "FlowRun.status run")
       (simp_all add: update_run_reaches_ack(1) [OF assms] trace_markJobAsCompleted
          split: sum.splits)
  then have none: "(filter isAck ?t = []) = (FlowRun.status run \<in> {QUEUED, RUNNING})"
    by (cases "FlowRun.status run") simp_all
  have contains: "sublist (JSON_stringify env (error (runDetails req))) msg"
    if "ConsumerUpdate j q JobStatus.FAILED tok msg \<in> set ?t" for j q tok msg
  proof -
    from that have "ConsumerUpdate j q JobStatus.FAILED tok msg \<in> set (filter isAck ?t)"
      by simp
    with acks
    have "msg = ''Internal error reported by engine: ''
                  @ JSON_stringify env (error (runDetails req)) @ []"
      by (auto split: if_splits)
    then show ?thesis
      unfolding sublist_def by blast
  qed
  from acks none contains show ?thesis
    by blast
qed

theorem update_run_acknowledges_witness:
  "filter isAck (fst (update_run (env_ok False None) principal0
                        (report INTERNAL_ERROR None None None None)))
     = [ConsumerUpdate ''run1'' ONE_TIME JobStatus.FAILED (Some ''tok1'')
          (''Internal error reported by engine: '' @ json_quote ''boom'')]
   \<and> sublist ''boom'' (''Internal error reported by engine: '' @ json_quote ''boom'')
   \<and> filter isPublish (fst (update_run (env_ok False None) principal0
                        (report INTERNAL_ERROR None None None None))) = []"
proof -
  let ?env = "env_ok False None"
  let ?req = "report INTERNAL_ERROR None None None None"
  let ?run = "\<lparr>run_id = ''run1'', status = INTERNAL_ERROR, logsFileId = Some ''log1'',
               failParentOnFailure = False, parentRunId = None, pauseMetadata = None\<rparr>"
  have a: "snd (publishFlowResponse ?env ?req) = Inr ()"
    and b: "snd (persistRun ?env principal0 ?req) = Inr ?run"
    and c: "snd (updateLogsOrNotify ?env principal0 ?req ?run) = Inr None"
    and d: "snd (pauseRun ?env ?req) = Inr ()"
    by (simp_all add: run_defs)
  have e: "filter isPublish (fst (update_run ?env principal0 ?req)) = []"
    by (simp add: run_defs)
  have f: "FlowRun.status ?run = INTERNAL_ERROR" "run_id ?run = ''run1''"
     "queueToken principal0 = Some ''tok1''"
     "JSON_stringify ?env (error (runDetails ?req)) = json_quote ''boom''"
    by (simp_all add: env_ok_def report_def principal0_def)
  from update_run_acknowledges [OF a b c d, THEN conjunct1]
  have "filter isAck (fst (update_run ?env principal0 ?req))
     = [ConsumerUpdate ''run1'' ONE_TIME JobStatus.FAILED (Some ''tok1'')
          (''Internal error reported by engine: '' @ json_quote ''boom'')]"
    unfolding f by simp
  with boom_in_message e show ?thesis
    by blast
qed

section \<open>The cascade to the parent run\<close>

text \<open>
  Claim C3. Let the Run Store return the persisted run. The calls of
  \<^verbatim>\<open>markParentRunAsFailed\<close> in the trace are those of exactly one invocation, with
  the persisted run's parentRunId as parent and its id as child, when the run has
  failParentOnFailure, a parentRunId and a status outside SUCCEEDED, RUNNING, PAUSED,
  QUEUED (and the handler has come that far: the blocks before it have completed); in
  every other case there is none. In particular a run without the flag never cascades.
\<close>

theorem update_run_cascade:
  assumes "snd (persistRun env p req) = Inr run"
  shows "case parentRunId run of
           None \<Rightarrow> filter isCascade (fst (update_run env p req)) = []
         | Some parent \<Rightarrow>
             if snd (publishFlowResponse env req) = Inr ()
                \<and> (\<exists>url. snd (updateLogsOrNotify env p req run) = Inr url)
                \<and> snd (pauseRun env req) = Inr ()
                \<and> snd (markJobAsCompleted env (FlowRun.status run) (run_id run) p
                          (error (runDetails req))) = Inr ()
                \<and> failParentOnFailure run
                \<and> FlowRun.status run \<notin> {SUCCEEDED, RUNNING, PAUSED, QUEUED}
             then filter isCascade (fst (update_run env p req))
                    = fst (markParentRunAsFailed env parent (run_id run) (projectId p)
                             (platform_id p))
                  \<and> filter isCascadeStart (fst (update_run env p req))
                    = [GetOneOrThrow parent (projectId p)]
             else filter isCascade (fst (update_run env p req)) = []"
  using assms
  by (auto simp add: update_run_trace cascadeToParent_cases split: sum.splits option.splits)

theorem update_run_cascade_witness:
  "filter isCascade (fst (update_run (env_ok True (Some ''parent1'')) principal0
                            (report FlowRunStatus.FAILED None None None None)))
     = [GetOneOrThrow ''parent1'' ''proj1'',
        GetPublicApiUrl ''/v1/flow-runs/parent1/requests/q7'' ''plat1'',
        GetPublicUrl ''/projects/proj1/runs/run1'' ''plat1'',
        AxiosPost ''https://api/v1/flow-runs/parent1/requests/q7'' ''error''
          ''Subflow execution failed'' ''https://app/projects/proj1/runs/run1'']
   \<and> filter isCascadeStart (fst (update_run (env_ok True (Some ''parent1'')) principal0
                            (report FlowRunStatus.FAILED None None None None)))
     = [GetOneOrThrow ''parent1'' ''proj1'']
   \<and> filter isCascade (fst (update_run (env_ok False (Some ''parent1'')) principal0
                            (report FlowRunStatus.FAILED None None None None))) = []
   \<and> filter isCascade (fst (update_run (env_ok True (Some ''parent1'')) principal0
                            (report SUCCEEDED None None None None))) = []"
proof -
  let ?p = "Some ''parent1''"
  let ?run = "\<lambda>flag st. \<lparr>run_id = ''run1'', status = st, logsFileId = Some ''log1'',
               failParentOnFailure = flag, parentRunId = Some ''parent1'', pauseMetadata = None\<rparr>"
  have a: "snd (persistRun (env_ok flag ?p) principal0 (report st None None None None))
             = Inr (?run flag st)" for flag st
    by (simp add: run_defs)
  have b: "snd (publishFlowResponse (env_ok flag ?p) (report st None None None None)) = Inr ()"
    "snd (updateLogsOrNotify (env_ok flag ?p) principal0 (report st None None None None) r)
       = Inr None"
    "snd (pauseRun (env_ok flag ?p) (report st None None None None)) = Inr ()"
    "snd (markJobAsCompleted (env_ok flag ?p) st j principal0 e) = Inr ()" for flag st r j e
    by (cases st; simp add: run_defs)+
  have d: "projectId principal0 = ''proj1''" "platform_id principal0 = ''plat1''"
    by (simp_all add: principal0_def)
  have c: "fst (markParentRunAsFailed (env_ok True ?p) ''parent1'' ''run1'' ''proj1'' ''plat1'')
     = [GetOneOrThrow ''parent1'' ''proj1'',
        GetPublicApiUrl ''/v1/flow-runs/parent1/requests/q7'' ''plat1'',
        GetPublicUrl ''/projects/proj1/runs/run1'' ''plat1'',
        AxiosPost ''https://api/v1/flow-runs/parent1/requests/q7'' ''error''
          ''Subflow execution failed'' ''https://app/projects/proj1/runs/run1'']"
    by (simp add: run_defs)
  from update_run_cascade [OF a [of True FlowRunStatus.FAILED]]
       update_run_cascade [OF a [of False FlowRunStatus.FAILED]]
       update_run_cascade [OF a [of True SUCCEEDED]]
  show ?thesis
    by (simp add: b c d)
qed

section \<open>Logs and progress\<close>

text \<open>
  Claim C9. After the run is persisted exactly one of two things happens. If the report
  has an executionStateContentLength greater than 0, an upload target is requested from
  the Run Store, with the logsFileId of the persisted run, nothing is broadcast, and the
  handler, when it returns, returns the uploadUrl that request gave. Otherwise the
  progress event of the run is emitted to the room of the principal's project and the
  returned uploadUrl is undefined.
\<close>

theorem update_run_logs_or_broadcast:
  assumes "snd (publishFlowResponse env req) = Inr ()"
    and "snd (persistRun env p req) = Inr run"
  shows "filter isLogsOrBroadcast (fst (update_run env p req)) =
           (case executionStateContentLength req of
              Some len \<Rightarrow>
                if 0 < len
                then [UpdateLogsAndReturnUploadUrl (runId req) (logsFileId run) (projectId p)
                        (executionStateBuffer req) len]
                else [Emit (projectId p) FLOW_RUN_PROGRESS (runId req)]
            | None \<Rightarrow> [Emit (projectId p) FLOW_RUN_PROGRESS (runId req)])
         \<and> (snd (update_run env p req) = Inr resp \<longrightarrow>
              (case executionStateContentLength req of
                 Some len \<Rightarrow>
                   if 0 < len
                   then updateLogsAndReturnUploadUrl env (runId req) (logsFileId run)
                          (projectId p) (executionStateBuffer req) len = Inr (uploadUrl resp)
                   else uploadUrl resp = None
               | None \<Rightarrow> uploadUrl resp = None))"
  using assms
  by (auto simp add: update_run_trace update_run_value updateLogsOrNotify_cases
      split: sum.splits option.splits)

theorem update_run_logs_or_broadcast_witness:
  "filter isLogsOrBroadcast
     (fst (update_run (env_ok False None) principal0
             (report RUNNING None None None (Some 2048))))
     = [UpdateLogsAndReturnUploadUrl ''run1'' (Some ''log1'') ''proj1'' None 2048]
   \<and> snd (update_run (env_ok False None) principal0
             (report RUNNING None None None (Some 2048)))
     = Inr \<lparr>uploadUrl = Some ''https://files/run1''\<rparr>
   \<and> updateLogsAndReturnUploadUrl (env_ok False None) ''run1'' (Some ''log1'') ''proj1'' None 2048
     = Inr (uploadUrl \<lparr>uploadUrl = Some ''https://files/run1''\<rparr>)
   \<and> filter isLogsOrBroadcast
     (fst (update_run (env_ok False None) principal0 (report RUNNING None None None None)))
     = [Emit ''proj1'' FLOW_RUN_PROGRESS ''run1'']
   \<and> filter isLogsOrBroadcast
     (fst (update_run (env_ok False None) principal0 (report RUNNING None None None (Some 0))))
     = [Emit ''proj1'' FLOW_RUN_PROGRESS ''run1'']"
proof -
  let ?env = "env_ok False None"
  let ?run = "\<lparr>run_id = ''run1'', status = RUNNING, logsFileId = Some ''log1'',
               failParentOnFailure = False, parentRunId = None, pauseMetadata = None\<rparr>"
  have a: "snd (publishFlowResponse ?env (report RUNNING None None None len)) = Inr ()"
    and b: "snd (persistRun ?env principal0 (report RUNNING None None None len)) = Inr ?run"
    for len
    by (simp_all add: run_defs)
  have c: "snd (update_run ?env principal0 (report RUNNING None None None (Some 2048)))
     = Inr \<lparr>uploadUrl = Some ''https://files/run1''\<rparr>"
    by (simp add: run_defs)
  have d: "projectId principal0 = ''proj1''" "logsFileId ?run = Some ''log1''"
    "runId (report RUNNING None None None len) = ''run1''"
    "executionStateBuffer (report RUNNING None None None len) = None"
    "executionStateContentLength (report RUNNING None None None len) = len" for len
    by (simp_all add: principal0_def report_def)
  from update_run_logs_or_broadcast [OF a b, of "Some 2048" "\<lparr>uploadUrl = Some ''https://files/run1''\<rparr>"]
       update_run_logs_or_broadcast [OF a b, of None]
       update_run_logs_or_broadcast [OF a b, of "Some 0"] c
  show ?thesis
    by (simp add: d)
qed

section \<open>Pause metadata\<close>

text \<open>
  Claim C8. A report with status PAUSED makes the handler call \<^verbatim>\<open>pause\<close> once, with
  metadata that has, field by field, the value the report's pauseMetadata supplies and,
  for a field it does not supply, the value of \<^verbatim>\<open>{progressUpdateType, handlerId}\<close>:
  the supplied fields win.
\<close>

theorem update_run_pause_metadata:
  assumes "FlowRunResponse.status (runDetails req) = PAUSED"
    and "snd (persistRun env p req) = Inr run"
    and "snd (updateLogsOrNotify env p req run) = Inr url"
  shows "\<exists>merged.
           filter isPause (fst (update_run env p req)) = [Pause (runId req) merged]
           \<and> (\<forall>k. merged k =
                (case (case FlowRunResponse.pauseMetadata (runDetails req) of
                         None \<Rightarrow> Map.empty | Some pm \<Rightarrow> pm) k of
                   Some v \<Rightarrow> Some v
                 | None \<Rightarrow>
                     [''progressUpdateType'' \<mapsto>
                        JString (case progressUpdateType req of
                                   None \<Rightarrow> ''NONE'' | Some t \<Rightarrow> t),
                      ''handlerId'' \<mapsto>
                        (case workerHandlerId req of
                           None \<Rightarrow> JUndefined | Some w \<Rightarrow> JString w)] k))"
proof -
  have pub: "publishFlowResponse env req = return_io ()"
    using assms(1)
    by (simp add: publishFlowResponse_def nonSupportedStatuses_def split: option.splits)
  have "filter isPause (fst (update_run env p req)) = fst (pauseRun env req)"
    using assms
    by (simp add: update_run_trace pub pauseRun_def Let_def split: sum.splits)
  then show ?thesis
    using assms(1)
    by (simp add: pauseRun_def Let_def ProgressUpdateType_NONE_def map_add_def
        cong: option.case_cong)
qed

theorem update_run_pause_metadata_witness:
  "\<exists>merged.
     filter isPause
       (fst (update_run (env_ok False None) principal0
               (report PAUSED (Some ''h2'') None
                  (Some [''type'' \<mapsto> JString ''WEBHOOK'', ''requestId'' \<mapsto> JString ''r9''])
                  None)))
       = [Pause ''run1'' merged]
     \<and> merged ''handlerId'' = Some (JString ''h2'')
     \<and> merged ''requestId'' = Some (JString ''r9'')
     \<and> merged ''type'' = Some (JString ''WEBHOOK'')
     \<and> merged ''progressUpdateType'' = Some (JString ''NONE'')"
proof -
  let ?env = "env_ok False None"
  let ?req = "report PAUSED (Some ''h2'') None
                (Some [''type'' \<mapsto> JString ''WEBHOOK'', ''requestId'' \<mapsto> JString ''r9'']) None"
  let ?run = "\<lparr>run_id = ''run1'', status = PAUSED, logsFileId = Some ''log1'',
               failParentOnFailure = False, parentRunId = None, pauseMetadata = None\<rparr>"
  have a: "FlowRunResponse.status (runDetails ?req) = PAUSED"
    and b: "snd (persistRun ?env principal0 ?req) = Inr ?run"
    and c: "snd (updateLogsOrNotify ?env principal0 ?req ?run) = Inr None"
    by (simp_all add: run_defs)
  from update_run_pause_metadata [OF a b c]
  obtain merged where m: "filter isPause (fst (update_run ?env principal0 ?req))
        = [Pause (runId ?req) merged]"
    and k: "\<And>k. merged k =
                (case (case FlowRunResponse.pauseMetadata (runDetails ?req) of
                         None \<Rightarrow> Map.empty | Some pm \<Rightarrow> pm) k of
                   Some v \<Rightarrow> Some v
                 | None \<Rightarrow>
                     [''progressUpdateType'' \<mapsto>
                        JString (case progressUpdateType ?req of
                                   None \<Rightarrow> ''NONE'' | Some t \<Rightarrow> t),
                      ''handlerId'' \<mapsto>
                        (case workerHandlerId ?req of
                           None \<Rightarrow> JUndefined | Some w \<Rightarrow> JString w)] k)"
    by blast
  have "merged ''handlerId'' = Some (JString ''h2'')"
    and "merged ''requestId'' = Some (JString ''r9'')"
    and "merged ''type'' = Some (JString ''WEBHOOK'')"
    and "merged ''progressUpdateType'' = Some (JString ''NONE'')"
    by (simp_all add: k report_def)
  with m show ?thesis
    by (simp add: report_def)
qed

section \<open>The parent notification\<close>

text \<open>
  Claim C7 says that a parent run without a webhook request id makes the cascade log an
  invariant violation. \<^verbatim>\<open>markParentRunAsFailed\<close> makes no log call: the assertion
  throws, nothing catches it, and the update-run call ends with that failure. The calls
  of the handler for a failed child whose parent is suspended on a delay are the Run
  Store update, the emit, the acknowledgment and the load of the parent.
\<close>

theorem missing_request_id_propagates:
  "update_run env_parent_delayed principal0 (report FlowRunStatus.FAILED None None None None)
     = ([UpdateRun ''run1'' FlowRunStatus.FAILED 3 120 ''proj1'' [] None,
         Emit ''proj1'' FLOW_RUN_PROGRESS ''run1'',
         ConsumerUpdate ''run1'' ONE_TIME COMPLETED (Some ''tok1'') ''Flow succeeded'',
         GetOneOrThrow ''parent1'' ''proj1''],
        Inl (AssertionError ''Parent run has no request id''))"
  by (simp add: run_defs)

text \<open>
  Claim C7, amended. Let the parent run be loaded. If its pause metadata is not of type
  WEBHOOK, or has no requestId, the cascade stops with an assertion failure right after
  the load: nothing is posted and no call changes the parent run, and the failure is
  thrown to the caller, so that the update-run call ends with it, the load being its
  last call. Otherwise, once the two URLs are resolved, the body
  \<^verbatim>\<open>{status: 'error', data: {message, link}}\<close> is posted to the callback URL
  resolved for the platform from the path
  \<^verbatim>\<open>/v1/flow-runs/<parentRunId>/requests/<requestId>\<close>, with the message
  \<^verbatim>\<open>Subflow execution failed\<close> and the URL of the child run as link.
\<close>

theorem markParentRunAsFailed_request_id:
  assumes "getOneOrThrow env parent project = Inr parentRun"
  shows "(opt_field (FlowRun.pauseMetadata parentRun) ''type'' \<noteq> JString ''WEBHOOK''
            \<or> opt_field (FlowRun.pauseMetadata parentRun) ''requestId'' \<in> {JUndefined, JNull}
          \<longrightarrow> markParentRunAsFailed env parent child project platform
                = ([GetOneOrThrow parent project],
                   Inl (AssertionError ''Parent run has no request id'')))
       \<and> (opt_field (FlowRun.pauseMetadata parentRun) ''type'' = JString ''WEBHOOK''
            \<and> opt_field (FlowRun.pauseMetadata parentRun) ''requestId'' = JString requestId
            \<and> getPublicApiUrl env (''/v1/flow-runs/'' @ parent @ ''/requests/'' @ requestId)
                  platform = Inr callbackUrl
            \<and> getPublicUrl env (''/projects/'' @ project @ ''/runs/'' @ child) platform
                  = Inr childRunUrl
          \<longrightarrow> markParentRunAsFailed env parent child project platform
                = ([GetOneOrThrow parent project,
                    GetPublicApiUrl (''/v1/flow-runs/'' @ parent @ ''/requests/'' @ requestId)
                      platform,
                    GetPublicUrl (''/projects/'' @ project @ ''/runs/'' @ child) platform,
                    AxiosPost callbackUrl ''error'' ''Subflow execution failed'' childRunUrl],
                   axios_post env callbackUrl ''error'' ''Subflow execution failed''
                     childRunUrl))
       \<and> ((opt_field (FlowRun.pauseMetadata parentRun) ''type'' \<noteq> JString ''WEBHOOK''
             \<or> opt_field (FlowRun.pauseMetadata parentRun) ''requestId''
                 \<in> {JUndefined, JNull})
            \<and> GetOneOrThrow parent project \<in> set (fst (update_run env p req))
          \<longrightarrow> snd (update_run env p req)
                = Inl (AssertionError ''Parent run has no request id'')
              \<and> (\<exists>pre. fst (update_run env p req) = pre @ [GetOneOrThrow parent project]
                     \<and> filter isCascade pre = []))"
proof -
  have absent: "markParentRunAsFailed env parent child' project platform'
                = ([GetOneOrThrow parent project],
                   Inl (AssertionError ''Parent run has no request id''))"
    if "opt_field (FlowRun.pauseMetadata parentRun) ''type'' \<noteq> JString ''WEBHOOK''
            \<or> opt_field (FlowRun.pauseMetadata parentRun) ''requestId'' \<in> {JUndefined, JNull}"
    for child' platform'
    using assms that
    by (auto simp add: markParentRunAsFailed_def bind_io_def call_def lift_io_def Let_def
        PauseType_WEBHOOK_def)
  have present: "markParentRunAsFailed env parent child project platform
                = ([GetOneOrThrow parent project,
                    GetPublicApiUrl (''/v1/flow-runs/'' @ parent @ ''/requests/'' @ requestId)
                      platform,
                    GetPublicUrl (''/projects/'' @ project @ ''/runs/'' @ child) platform,
                    AxiosPost callbackUrl ''error'' ''Subflow execution failed'' childRunUrl],
                   axios_post env callbackUrl ''error'' ''Subflow execution failed''
                     childRunUrl)"
    if "opt_field (FlowRun.pauseMetadata parentRun) ''type'' = JString ''WEBHOOK''
            \<and> opt_field (FlowRun.pauseMetadata parentRun) ''requestId'' = JString requestId
            \<and> getPublicApiUrl env (''/v1/flow-runs/'' @ parent @ ''/requests/'' @ requestId)
                  platform = Inr callbackUrl
            \<and> getPublicUrl env (''/projects/'' @ project @ ''/runs/'' @ child) platform
                  = Inr childRunUrl"
    using assms that
    by (auto simp add: markParentRunAsFailed_def bind_io_def call_def lift_io_def Let_def
        PauseType_WEBHOOK_def)
  have thrown: "snd (update_run env p req)
                = Inl (AssertionError ''Parent run has no request id'')
              \<and> (\<exists>pre. fst (update_run env p req) = pre @ [GetOneOrThrow parent project]
                     \<and> filter isCascade pre = [])"
    if nowebhook: "opt_field (FlowRun.pauseMetadata parentRun) ''type'' \<noteq> JString ''WEBHOOK''
             \<or> opt_field (FlowRun.pauseMetadata parentRun) ''requestId''
                 \<in> {JUndefined, JNull}"
      and load: "GetOneOrThrow parent project \<in> set (fst (update_run env p req))"
  proof -
    note ns = not_start_in_block [of _ parent project]
    from load obtain u where pub: "snd (publishFlowResponse env req) = Inr u"
      by (cases "snd (publishFlowResponse env req)") (auto simp add: update_run_trace ns)
    from load pub obtain run where per: "snd (persistRun env p req) = Inr run"
      by (cases "snd (persistRun env p req)") (auto simp add: update_run_trace ns)
    from load pub per obtain upl where logs: "snd (updateLogsOrNotify env p req run) = Inr upl"
      by (cases "snd (updateLogsOrNotify env p req run)") (auto simp add: update_run_trace ns)
    from load pub per logs obtain u' where pau: "snd (pauseRun env req) = Inr u'"
      by (cases "snd (pauseRun env req)") (auto simp add: update_run_trace ns)
    let ?ack = "markJobAsCompleted env (FlowRun.status run) (run_id run) p
                  (error (runDetails req))"
    from load pub per logs pau obtain u'' where ack: "snd ?ack = Inr u''"
      by (cases "snd ?ack") (auto simp add: update_run_trace ns)
    let ?before = "fst (publishFlowResponse env req) @ fst (persistRun env p req)
           @ fst (updateLogsOrNotify env p req run) @ fst (pauseRun env req) @ fst ?ack"
    have t: "fst (update_run env p req) = ?before @ fst (cascadeToParent env p run)"
      using pub per logs pau ack by (simp add: update_run_trace)
    have v: "snd (update_run env p req) =
               (case snd (cascadeToParent env p run) of
                  Inl e \<Rightarrow> Inl e | Inr u' \<Rightarrow> Inr \<lparr>uploadUrl = upl\<rparr>)"
      using pub per logs pau ack by (simp add: update_run_value)
    have nb: "filter isCascadeStart ?before = []" and nc: "filter isCascade ?before = []"
      by simp_all
    with load t have inc: "GetOneOrThrow parent project \<in> set (fst (cascadeToParent env p run))"
      using ns [of ?before] by auto
    then have casc: "cascadeToParent env p run =
        markParentRunAsFailed env (the (parentRunId run)) (run_id run) (projectId p)
          (platform_id p)"
      by (auto simp add: cascadeToParent_cases split: if_splits)
    with inc start_in_markParentRunAsFailed
    have "parent = the (parentRunId run)" and "project = projectId p"
      by metis+
    with casc absent [OF nowebhook]
    have c: "cascadeToParent env p run
               = ([GetOneOrThrow parent project],
                  Inl (AssertionError ''Parent run has no request id''))"
      by simp
    from v c have "snd (update_run env p req)
                = Inl (AssertionError ''Parent run has no request id'')"
      by simp
    moreover from t c have "fst (update_run env p req) = ?before @ [GetOneOrThrow parent project]"
      by simp
    ultimately show ?thesis
      using nc by blast
  qed
  from absent present thrown show ?thesis
    by blast
qed


theorem markParentRunAsFailed_request_id_witness:
  "markParentRunAsFailed env_parent_delayed ''parent1'' ''run1'' ''proj1'' ''plat1''
     = ([GetOneOrThrow ''parent1'' ''proj1''],
        Inl (AssertionError ''Parent run has no request id''))
   \<and> markParentRunAsFailed (env_ok True (Some ''parent1'')) ''parent1'' ''run1'' ''proj1'' ''plat1''
     = ([GetOneOrThrow ''parent1'' ''proj1'',
         GetPublicApiUrl ''/v1/flow-runs/parent1/requests/q7'' ''plat1'',
         GetPublicUrl ''/projects/proj1/runs/run1'' ''plat1'',
         AxiosPost ''https://api/v1/flow-runs/parent1/requests/q7'' ''error''
           ''Subflow execution failed'' ''https://app/projects/proj1/runs/run1''],
        Inr ())
   \<and> GetOneOrThrow ''parent1'' ''proj1''
       \<in> set (fst (update_run env_parent_delayed principal0
                      (report FlowRunStatus.FAILED None None None None)))
   \<and> snd (update_run env_parent_delayed principal0
             (report FlowRunStatus.FAILED None None None None))
     = Inl (AssertionError ''Parent run has no request id'')"
proof -
  let ?delayed = "(parent_on_webhook ''parent1'')
                 \<lparr>pauseMetadata :=
                    Some [''type'' \<mapsto> JString ''DELAY'',
                          ''resumeDateTime'' \<mapsto> JString ''2026-01-01T00:00:00Z'']\<rparr>"
  let ?req = "report FlowRunStatus.FAILED None None None None"
  have a: "getOneOrThrow env_parent_delayed ''parent1'' ''proj1'' = Inr ?delayed"
    by (simp add: env_parent_delayed_def env_ok_def)
  have b: "opt_field (FlowRun.pauseMetadata ?delayed) ''type'' \<noteq> JString ''WEBHOOK''
            \<or> opt_field (FlowRun.pauseMetadata ?delayed) ''requestId'' \<in> {JUndefined, JNull}"
    by (simp add: opt_field_def)
  let ?env = "env_ok True (Some ''parent1'')"
  have c: "getOneOrThrow ?env ''parent1'' ''proj1'' = Inr (parent_on_webhook ''parent1'')"
    by (simp add: env_ok_def)
  have d: "opt_field (FlowRun.pauseMetadata (parent_on_webhook ''parent1'')) ''type''
             = JString ''WEBHOOK''
           \<and> opt_field (FlowRun.pauseMetadata (parent_on_webhook ''parent1'')) ''requestId''
             = JString ''q7''
           \<and> getPublicApiUrl ?env (''/v1/flow-runs/'' @ ''parent1'' @ ''/requests/'' @ ''q7'')
               ''plat1'' = Inr ''https://api/v1/flow-runs/parent1/requests/q7''
           \<and> getPublicUrl ?env (''/projects/'' @ ''proj1'' @ ''/runs/'' @ ''run1'') ''plat1''
               = Inr ''https://app/projects/proj1/runs/run1''"
    by (simp add: opt_field_def parent_on_webhook_def env_ok_def)
  have e: "axios_post ?env u s m l = Inr ()" for u s m l
    by (simp add: env_ok_def)
  have f: "GetOneOrThrow ''parent1'' ''proj1''
       \<in> set (fst (update_run env_parent_delayed principal0 ?req))"
    by (simp add: run_defs)
  from b f
  have g: "(opt_field (FlowRun.pauseMetadata ?delayed) ''type'' \<noteq> JString ''WEBHOOK''
             \<or> opt_field (FlowRun.pauseMetadata ?delayed) ''requestId''
                 \<in> {JUndefined, JNull})
           \<and> GetOneOrThrow ''parent1'' ''proj1''
               \<in> set (fst (update_run env_parent_delayed principal0 ?req))"
    by blast
  from markParentRunAsFailed_request_id
         [OF a, THEN conjunct1, rule_format, OF b, of "''run1''" "''plat1''"]
       markParentRunAsFailed_request_id
         [OF c, THEN conjunct2, THEN conjunct1, rule_format, OF d]
       markParentRunAsFailed_request_id
         [OF a, THEN conjunct2, THEN conjunct2, rule_format, OF g, THEN conjunct1]
       f
  show ?thesis
    by (simp add: e)
qed

text \<open>
  Claim C6 says that a failed delivery of the parent notification is not propagated as a
  failure of the update-run call. The handler awaits \<^verbatim>\<open>markParentRunAsFailed\<close>, which
  awaits the post, and neither catches: with a run that cascades and a post that is
  rejected, the handler ends with that rejection.
\<close>

theorem delivery_failure_propagates:
  "update_run env_post_rejected principal0 (report FlowRunStatus.FAILED None None None None)
     = ([UpdateRun ''run1'' FlowRunStatus.FAILED 3 120 ''proj1'' [] None,
         Emit ''proj1'' FLOW_RUN_PROGRESS ''run1'',
         ConsumerUpdate ''run1'' ONE_TIME COMPLETED (Some ''tok1'') ''Flow succeeded'',
         GetOneOrThrow ''parent1'' ''proj1'',
         GetPublicApiUrl ''/v1/flow-runs/parent1/requests/q7'' ''plat1'',
         GetPublicUrl ''/projects/proj1/runs/run1'' ''plat1'',
         AxiosPost ''https://api/v1/flow-runs/parent1/requests/q7'' ''error''
           ''Subflow execution failed'' ''https://app/projects/proj1/runs/run1''],
        Inl (Rejected ''ECONNREFUSED''))"
  by (simp add: run_defs)

text \<open>
  Claim C6, amended. When the post of the parent notification is rejected, the
  update-run call fails with that rejection. The post is the last call of the handler
  and the only post, so it is not retried and nothing is rolled back: the Run Store
  update and the queue acknowledgment have completed before it and stay as they are.
\<close>

theorem update_run_delivery_failure:
  assumes post: "AxiosPost url st msg link \<in> set (fst (update_run env p req))"
    and rejected: "axios_post env url st msg link = Inl e"
  shows "snd (update_run env p req) = Inl e
       \<and> (\<exists>pre run.
            fst (update_run env p req) = pre @ [AxiosPost url st msg link]
            \<and> filter isAxiosPost pre = []
            \<and> snd (persistRun env p req) = Inr run
            \<and> set (fst (persistRun env p req)) \<subseteq> set pre
            \<and> snd (markJobAsCompleted env (FlowRun.status run) (run_id run) p
                      (error (runDetails req))) = Inr ()
            \<and> set (fst (markJobAsCompleted env (FlowRun.status run) (run_id run) p
                           (error (runDetails req)))) \<subseteq> set pre)"
proof -
  note np = not_post_in_block [of _ url st msg link]
  from post obtain u where pub: "snd (publishFlowResponse env req) = Inr u"
    by (cases "snd (publishFlowResponse env req)") (auto simp add: update_run_trace np)
  from post pub obtain run where per: "snd (persistRun env p req) = Inr run"
    by (cases "snd (persistRun env p req)") (auto simp add: update_run_trace np)
  from post pub per obtain upl where logs: "snd (updateLogsOrNotify env p req run) = Inr upl"
    by (cases "snd (updateLogsOrNotify env p req run)") (auto simp add: update_run_trace np)
  from post pub per logs obtain u' where pau: "snd (pauseRun env req) = Inr u'"
    by (cases "snd (pauseRun env req)") (auto simp add: update_run_trace np)
  let ?ack = "markJobAsCompleted env (FlowRun.status run) (run_id run) p (error (runDetails req))"
  from post pub per logs pau obtain u'' where ack: "snd ?ack = Inr u''"
    by (cases "snd ?ack") (auto simp add: update_run_trace np)
  let ?before = "fst (publishFlowResponse env req) @ fst (persistRun env p req)
           @ fst (updateLogsOrNotify env p req run) @ fst (pauseRun env req) @ fst ?ack"
  have t: "fst (update_run env p req) = ?before @ fst (cascadeToParent env p run)"
    using pub per logs pau ack by (simp add: update_run_trace)
  have v: "snd (update_run env p req) =
             (case snd (cascadeToParent env p run) of
                Inl e \<Rightarrow> Inl e | Inr u' \<Rightarrow> Inr \<lparr>uploadUrl = upl\<rparr>)"
    using pub per logs pau ack by (simp add: update_run_value)
  have nb: "filter isAxiosPost ?before = []"
    by simp
  with post t have inc: "AxiosPost url st msg link \<in> set (fst (cascadeToParent env p run))"
    using np [of ?before] by auto
  then have casc: "cascadeToParent env p run =
      markParentRunAsFailed env (the (parentRunId run)) (run_id run) (projectId p) (platform_id p)"
    by (auto simp add: cascadeToParent_cases split: if_splits)
  from inc casc markParentRunAsFailed_post
  obtain pre where pre: "fst (cascadeToParent env p run) = pre @ [AxiosPost url st msg link]"
    and npre: "filter isAxiosPost pre = []"
    and res: "snd (cascadeToParent env p run) = axios_post env url st msg link"
    by metis
  from v res rejected have "snd (update_run env p req) = Inl e"
    by simp
  moreover from t pre have "fst (update_run env p req) = (?before @ pre) @ [AxiosPost url st msg link]"
    by simp
  moreover from nb npre have "filter isAxiosPost (?before @ pre) = []"
    by simp
  moreover have "set (fst (persistRun env p req)) \<subseteq> set (?before @ pre)"
    and "set (fst ?ack) \<subseteq> set (?before @ pre)"
    by auto
  moreover from ack have "snd ?ack = Inr ()"
    by simp
  ultimately show ?thesis
    using per by blast
qed


theorem update_run_delivery_failure_witness:
  "AxiosPost ''https://api/v1/flow-runs/parent1/requests/q7'' ''error''
      ''Subflow execution failed'' ''https://app/projects/proj1/runs/run1''
     \<in> set (fst (update_run env_post_rejected principal0
                    (report FlowRunStatus.FAILED None None None None)))
   \<and> axios_post env_post_rejected ''https://api/v1/flow-runs/parent1/requests/q7'' ''error''
       ''Subflow execution failed'' ''https://app/projects/proj1/runs/run1''
     = Inl (Rejected ''ECONNREFUSED'')
   \<and> snd (update_run env_post_rejected principal0
             (report FlowRunStatus.FAILED None None None None))
     = Inl (Rejected ''ECONNREFUSED'')"
proof -
  have a: "AxiosPost ''https://api/v1/flow-runs/parent1/requests/q7'' ''error''
      ''Subflow execution failed'' ''https://app/projects/proj1/runs/run1''
     \<in> set (fst (update_run env_post_rejected principal0
                    (report FlowRunStatus.FAILED None None None None)))"
    by (simp add: run_defs)
  have b: "axios_post env_post_rejected ''https://api/v1/flow-runs/parent1/requests/q7''
       ''error'' ''Subflow execution failed'' ''https://app/projects/proj1/runs/run1''
     = Inl (Rejected ''ECONNREFUSED'')"
    by (simp add: env_post_rejected_def)
  from update_run_delivery_failure [OF a b] a b show ?thesis
    by blast
qed

section \<open>Reports that owe no response\<close>

text \<open>
  Claim C5 says that a report with status RUNNING, SUCCEEDED or PAUSED and an
  httpRequestId makes the handler fail. The guard of line 90 skips the publish for these
  statuses and the handler goes on: with collaborators that all resolve it returns.
\<close>


theorem running_with_request_id_succeeds:
  "FlowRunResponse.status (runDetails (report RUNNING (Some ''h1'') (Some ''r1'') None None))
     = RUNNING
   \<and> httpRequestId (report RUNNING (Some ''h1'') (Some ''r1'') None None) = Some ''r1''
   \<and> update_run (env_ok False None) principal0
        (report RUNNING (Some ''h1'') (Some ''r1'') None None)
     = ([UpdateRun ''run1'' RUNNING 3 120 ''proj1'' [] None,
         Emit ''proj1'' FLOW_RUN_PROGRESS ''run1''],
        Inr \<lparr>uploadUrl = None\<rparr>)"
  by (simp add: run_defs)

text \<open>
  Claim C5, amended. A report with status RUNNING, SUCCEEDED or PAUSED and an
  httpRequestId raises no error for it: the handler publishes nothing, its first call is
  the Run Store update, and it behaves exactly as for the same report without
  httpRequestId.
\<close>

theorem update_run_ignores_request_id:
  assumes "FlowRunResponse.status (runDetails req) \<in> {RUNNING, SUCCEEDED, PAUSED}"
    and "httpRequestId req = Some h"
  shows "update_run env p req = update_run env p (req\<lparr>httpRequestId := None\<rparr>)
       \<and> filter isPublish (fst (update_run env p req)) = []
       \<and> (\<exists>rest. fst (update_run env p req) =
             UpdateRun (runId req) (FlowRunResponse.status (runDetails req))
               (tasks (runDetails req)) (duration (runDetails req)) (projectId p)
               (case tags (runDetails req) of None \<Rightarrow> [] | Some ts \<Rightarrow> ts)
               (failedStepName req) # rest)"
proof -
  have pub: "publishFlowResponse env req = return_io ()"
    "publishFlowResponse env (req\<lparr>httpRequestId := None\<rparr>) = return_io ()"
    using assms(1)
    by (auto simp add: publishFlowResponse_def nonSupportedStatuses_def split: option.splits)
  have same: "persistRun env p (req\<lparr>httpRequestId := None\<rparr>) = persistRun env p req"
    "updateLogsOrNotify env p (req\<lparr>httpRequestId := None\<rparr>) run
       = updateLogsOrNotify env p req run"
    "pauseRun env (req\<lparr>httpRequestId := None\<rparr>) = pauseRun env req" for run
    by (simp_all add: persistRun_def updateLogsOrNotify_def pauseRun_def Let_def
        split: option.splits)
  have "update_run env p req = update_run env p (req\<lparr>httpRequestId := None\<rparr>)"
    by (simp add: update_run_def pub same)
  moreover have "filter isPublish (fst (update_run env p req)) = []"
    by (simp add: publishes_update_run pub)
  moreover have "\<exists>rest. fst (update_run env p req) =
             UpdateRun (runId req) (FlowRunResponse.status (runDetails req))
               (tasks (runDetails req)) (duration (runDetails req)) (projectId p)
               (case tags (runDetails req) of None \<Rightarrow> [] | Some ts \<Rightarrow> ts)
               (failedStepName req) # rest"
    by (simp add: update_run_trace pub trace_persistRun)
  ultimately show ?thesis by blast
qed

theorem update_run_ignores_request_id_witness:
  "FlowRunResponse.status (runDetails (report SUCCEEDED (Some ''h1'') (Some ''r1'') None None))
     \<in> {RUNNING, SUCCEEDED, PAUSED}
   \<and> update_run (env_ok False None) principal0
        (report SUCCEEDED (Some ''h1'') (Some ''r1'') None None)
     = update_run (env_ok False None) principal0
        ((report SUCCEEDED (Some ''h1'') (Some ''r1'') None None)\<lparr>httpRequestId := None\<rparr>)
   \<and> filter isPublish (fst (update_run (env_ok False None) principal0
        (report SUCCEEDED (Some ''h1'') (Some ''r1'') None None))) = []"
proof -
  let ?req = "report SUCCEEDED (Some ''h1'') (Some ''r1'') None None"
  have a: "FlowRunResponse.status (runDetails ?req) \<in> {RUNNING, SUCCEEDED, PAUSED}"
    and b: "httpRequestId ?req = Some ''r1''"
    by (simp_all add: report_def)
  from update_run_ignores_request_id [OF a b] a show ?thesis
    by blast
qed

end
